theory Spec2Isabelle
  imports Complex_Main
begin

section \<open>The job queue node of res/job_queue/job_queue_node.py\<close>

text \<open>
  The node is a Python object wrapping a C object. The Python side holds the worker
  (thread) status, the monitor thread, the kill counter, the timing fields and the
  callbacks; the C side holds the queue status and the submit counter. The three
  enumerations are imported by the source from modules that are not part of it:
  their values are the ones the source and the design document name.
\<close>

datatype JobStatusType =
    JOB_QUEUE_WAITING
  | JOB_QUEUE_SUBMITTED
  | JOB_QUEUE_PENDING
  | JOB_QUEUE_RUNNING
  | JOB_QUEUE_DONE
  | JOB_QUEUE_EXIT
  | JOB_QUEUE_SUCCESS
  | JOB_QUEUE_FAILED
  | JOB_QUEUE_IS_KILLED
  | JOB_QUEUE_UNKNOWN

datatype ThreadStatus = READY | RUNNING | FAILED | DONE | STOPPING

datatype JobSubmitStatusType =
  SUBMIT_OK | SUBMIT_JOB_FAIL | SUBMIT_DRIVER_FAIL | SUBMIT_QUEUE_CLOSED

text \<open>Python exceptions that the source raises, catches, or lets through.\<close>

datatype exn = ValueError | AssertionError | OtherError

text \<open>
  How a call ends: it returns, it raises, or (for the polling loop, which has no bound
  of its own) the fuel given to the model ran out before the loop ended.
\<close>

datatype completion = Finished | Raised exn | OutOfFuel

text \<open>Ghost traces: the calls made on the driver and on the caller's callbacks.\<close>

datatype driver_call = DriverSubmit | DriverPoll | DriverKill

datatype 'a callback_call = DoneCallback 'a | ExitCallback 'a | TimeoutCallback 'a

text \<open>
  The monitor thread object: the \<open>max_submit\<close> argument it was created with, and
  whether it is alive.
\<close>

datatype Thread = Thread (thread_max_submit: int) (is_alive: bool)

text \<open>
  A callback takes the opaque caller-supplied arguments and either returns (the truth
  value of what it returns is all the source looks at) or raises.
\<close>

type_synonym 'a callback = "'a \<Rightarrow> exn + bool"

record 'a JobQueueNode =
  done_callback_function :: "'a callback"
  exit_callback_function :: "'a callback"
  callback_timeout :: "'a callback option"
  callback_arguments :: 'a
  thread_status :: ThreadStatus
  thread :: "Thread option"
  tried_killing :: nat
  max_runtime :: "real option"
  start_time :: "real option"
  end_time :: "real option"
  timed_out :: bool
  status :: JobStatusType
  submit_attempt :: nat
  driver_calls :: "driver_call list"
  callback_calls :: "'a callback_call list"
  clock_reads :: nat
  polls :: nat
  sleeps :: nat
  live_monitors :: nat

text \<open>
  Fields \<open>status\<close> and \<open>submit_attempt\<close> live in the C object. The last six fields are
  ghost state: the two traces, how many times the clock, the backend and the sleep have
  been used so far (indices into the environment below), and how many monitor threads
  of this node are alive.

  The environment is everything the node does not decide: the wall clock, what the
  backend answers to the submit and to each status query, and whether another thread
  calls \<open>stop()\<close> while the monitor sleeps.
\<close>

record environment =
  clock :: "nat \<Rightarrow> real"
  submit_reply :: "nat \<Rightarrow> JobSubmitStatusType \<times> JobStatusType"
  poll_reply :: "nat \<Rightarrow> JobStatusType \<Rightarrow> JobStatusType"
  stop_requested :: "nat \<Rightarrow> bool"

subsection \<open>Setters and the C functions\<close>

definition set_thread_status :: "ThreadStatus \<Rightarrow> 'a JobQueueNode \<Rightarrow> 'a JobQueueNode" where
  "set_thread_status new_status s = s\<lparr>thread_status := new_status\<rparr>"

definition set_status :: "JobStatusType \<Rightarrow> 'a JobQueueNode \<Rightarrow> 'a JobQueueNode" where
  "set_status new_status s = s\<lparr>status := new_status\<rparr>"

text \<open>\<open>time.time()\<close>: the next reading of the wall clock.\<close>

definition time_time :: "environment \<Rightarrow> 'a JobQueueNode \<Rightarrow> real \<times> 'a JobQueueNode" where
  "time_time env s = (clock env (clock_reads s), s\<lparr>clock_reads := Suc (clock_reads s)\<rparr>)"

text \<open>
  Modelled from the spec: the C function \<open>job_queue_node_submit_simple\<close> behind
  \<open>submit\<close> is not in the source. It calls the driver's submit, counts the attempt
  whatever the outcome, and returns the outcome; the queue status it leaves on the node
  is the environment's.
\<close>

definition submit :: "environment \<Rightarrow> 'a JobQueueNode \<Rightarrow> JobSubmitStatusType \<times> 'a JobQueueNode" where
  "submit env s =
     (let r = submit_reply env (submit_attempt s)
      in (fst r, s\<lparr>status := snd r,
                    submit_attempt := Suc (submit_attempt s),
                    driver_calls := driver_calls s @ [DriverSubmit]\<rparr>))"

text \<open>
  Modelled from the spec: the C function \<open>job_queue_node_update_status_simple\<close> is
  not in the source. It polls the driver and stores the status the backend reports.
\<close>

definition c_update_status :: "environment \<Rightarrow> 'a JobQueueNode \<Rightarrow> 'a JobQueueNode" where
  "c_update_status env s =
     s\<lparr>status := poll_reply env (polls s) (status s),
       polls := Suc (polls s),
       driver_calls := driver_calls s @ [DriverPoll]\<rparr>"

definition update_status :: "environment \<Rightarrow> 'a JobQueueNode \<Rightarrow> 'a JobQueueNode" where
  "update_status env s =
     (if status s \<noteq> JOB_QUEUE_WAITING then c_update_status env s else s)"

text \<open>
  Modelled from the spec: the C function \<open>job_queue_node_kill_simple\<close> behind
  \<open>_run_kill\<close> is not in the source. It calls the driver's kill and does not itself
  change the queue status; its boolean result is ignored by the caller.
\<close>

definition run_kill :: "'a JobQueueNode \<Rightarrow> 'a JobQueueNode" where
  "run_kill s = s\<lparr>driver_calls := driver_calls s @ [DriverKill]\<rparr>"

subsection \<open>Callbacks\<close>

definition run_done_callback :: "'a JobQueueNode \<Rightarrow> (exn + bool) \<times> 'a JobQueueNode" where
  "run_done_callback s =
     (let s1 = s\<lparr>callback_calls := callback_calls s @ [DoneCallback (callback_arguments s)]\<rparr>
      in case done_callback_function s (callback_arguments s) of
           Inr callback_status \<Rightarrow>
             (Inr callback_status,
              set_status (if callback_status then JOB_QUEUE_SUCCESS else JOB_QUEUE_EXIT) s1)
         | Inl ValueError \<Rightarrow> (Inr False, set_status JOB_QUEUE_FAILED s1)
         | Inl e \<Rightarrow> (Inl e, s1))"

definition run_exit_callback :: "'a JobQueueNode \<Rightarrow> (exn + bool) \<times> 'a JobQueueNode" where
  "run_exit_callback s =
     (exit_callback_function s (callback_arguments s),
      s\<lparr>callback_calls := callback_calls s @ [ExitCallback (callback_arguments s)]\<rparr>)"

subsection \<open>Status queries, runtime and the kill policy\<close>

definition is_running :: "'a JobQueueNode \<Rightarrow> JobStatusType option \<Rightarrow> bool" where
  "is_running s given_status =
     (let st = (case given_status of None \<Rightarrow> status s | Some g \<Rightarrow> g)
      in st = JOB_QUEUE_PENDING \<or> st = JOB_QUEUE_SUBMITTED
         \<or> st = JOB_QUEUE_RUNNING \<or> st = JOB_QUEUE_UNKNOWN)"

definition runtime :: "environment \<Rightarrow> 'a JobQueueNode \<Rightarrow> real \<times> 'a JobQueueNode" where
  "runtime env s =
     (case start_time s of
        None \<Rightarrow> (0, s)
      | Some st \<Rightarrow>
          (case end_time s of
             None \<Rightarrow> (let (now, s1) = time_time env s in (now - st, s1))
           | Some en \<Rightarrow> (en - st, s)))"

definition should_be_killed :: "environment \<Rightarrow> 'a JobQueueNode \<Rightarrow> bool \<times> 'a JobQueueNode" where
  "should_be_killed env s =
     (if thread_status s = STOPPING then (True, s)
      else case max_runtime s of
             None \<Rightarrow> (False, s)
           | Some m \<Rightarrow> (let (r, s1) = runtime env s in (r \<ge> m, s1)))"

definition kill :: "'a JobQueueNode \<Rightarrow> 'a JobQueueNode" where
  "kill s = (let s1 = run_kill s in s1\<lparr>tried_killing := tried_killing s1 + 1\<rparr>)"

subsection \<open>stop\<close>

definition stop :: "'a JobQueueNode \<Rightarrow> completion \<times> 'a JobQueueNode" where
  "stop s =
     (let s1 = (if thread_status s = RUNNING then set_thread_status STOPPING s
                else if thread_status s = READY
                then set_status JOB_QUEUE_FAILED (set_thread_status DONE s)
                else s)
      in if thread_status s1 = DONE \<or> thread_status s1 = STOPPING \<or> thread_status s1 = FAILED
         then (Finished, s1)
         else (Raised AssertionError, s1))"

subsection \<open>The monitor\<close>

text \<open>
  \<open>time.sleep(1)\<close>: the monitor holds no lock while it sleeps, so this is where another
  thread's \<open>stop()\<close> takes effect in the model; an exception of that call belongs to the
  other thread.
\<close>

definition sleep :: "environment \<Rightarrow> 'a JobQueueNode \<Rightarrow> 'a JobQueueNode" where
  "sleep env s =
     (let s1 = s\<lparr>sleeps := Suc (sleeps s)\<rparr>
      in if stop_requested env (sleeps s) then snd (stop s1) else s1)"

text \<open>The first statement of the loop body: record the start time once.\<close>

definition record_start :: "environment \<Rightarrow> 'a JobQueueNode \<Rightarrow> JobStatusType \<Rightarrow> 'a JobQueueNode" where
  "record_start env s current_status =
     (if start_time s = None \<and> current_status = JOB_QUEUE_RUNNING
      then (let (now, s1) = time_time env s in s1\<lparr>start_time := Some now\<rparr>)
      else s)"

text \<open>
  The test \<open>self._max_runtime and self.runtime >= self._max_runtime\<close>: Python's
  \<open>and\<close> takes \<open>None\<close> and zero for false, and reads the runtime only otherwise.
\<close>

definition max_runtime_reached :: "environment \<Rightarrow> 'a JobQueueNode \<Rightarrow> bool \<times> 'a JobQueueNode" where
  "max_runtime_reached env s =
     (case max_runtime s of
        None \<Rightarrow> (False, s)
      | Some m \<Rightarrow> if m = 0 then (False, s)
                  else (let (r, s1) = runtime env s in (r \<ge> m, s1)))"

text \<open>
  The timeout callback, when there is one, then the flag. (The two logging statements
  before them change nothing.)
\<close>

definition notify_timeout :: "'a JobQueueNode \<Rightarrow> completion \<times> 'a JobQueueNode" where
  "notify_timeout s =
     (case callback_timeout s of
        None \<Rightarrow> (Finished, s\<lparr>timed_out := True\<rparr>)
      | Some f \<Rightarrow>
          (let s1 = s\<lparr>callback_calls :=
                        callback_calls s @ [TimeoutCallback (callback_arguments s)]\<rparr>
           in case f (callback_arguments s) of
                Inl e \<Rightarrow> (Raised e, s1)
              | Inr _ \<Rightarrow> (Finished, s1\<lparr>timed_out := True\<rparr>)))"

text \<open>The statement \<open>if self._should_be_killed(): ...\<close> of the loop body.\<close>

definition kill_policy :: "environment \<Rightarrow> 'a JobQueueNode \<Rightarrow> completion \<times> 'a JobQueueNode" where
  "kill_policy env s =
     (let (k, s1) = should_be_killed env s
      in if k
         then (let s2 = kill s1;
                   (r, s3) = max_runtime_reached env s2
               in if r then notify_timeout s3 else (Finished, s3))
         else (Finished, s1))"

text \<open>One pass through the body of the \<open>while\<close> loop; it yields the new cached status.\<close>

definition loop_body ::
  "environment \<Rightarrow> 'a JobQueueNode \<Rightarrow> JobStatusType \<Rightarrow> completion \<times> 'a JobQueueNode \<times> JobStatusType"
where
  "loop_body env s current_status =
     (let s1 = record_start env s current_status;
          s2 = sleep env s1;
          s3 = update_status env s2
      in case kill_policy env s3 of
           (Finished, s4) \<Rightarrow> (Finished, s4, status s4)
         | (c, s4) \<Rightarrow> (c, s4, current_status))"

fun poll_loop ::
  "nat \<Rightarrow> environment \<Rightarrow> 'a JobQueueNode \<Rightarrow> JobStatusType \<Rightarrow> completion \<times> 'a JobQueueNode \<times> JobStatusType"
where
  "poll_loop 0 env s current_status =
     (if is_running s (Some current_status) then (OutOfFuel, s, current_status)
      else (Finished, s, current_status))"
| "poll_loop (Suc n) env s current_status =
     (if is_running s (Some current_status)
      then (case loop_body env s current_status of
              (Finished, s1, st1) \<Rightarrow> poll_loop n env s1 st1
            | (c, s1, st1) \<Rightarrow> (c, s1, st1))
      else (Finished, s, current_status))"

text \<open>
  The part of the locked block after the done callback: the status is read again and
  decides. (The lock and the callback semaphore order threads; they change no field.)
\<close>

definition handle_final_status :: "int \<Rightarrow> 'a JobQueueNode \<Rightarrow> completion \<times> 'a JobQueueNode" where
  "handle_final_status max_submit s =
     (let current_status = status s
      in if current_status = JOB_QUEUE_SUCCESS then (Finished, set_thread_status DONE s)
         else if current_status = JOB_QUEUE_EXIT
         then (if int (submit_attempt s) < max_submit
               then (Finished, set_thread_status READY s)
               else (case run_exit_callback (set_status JOB_QUEUE_FAILED s) of
                       (Inl e, s1) \<Rightarrow> (Raised e, s1)
                     | (Inr _, s1) \<Rightarrow> (Finished, set_thread_status DONE s1)))
         else if current_status = JOB_QUEUE_IS_KILLED then (Finished, set_thread_status DONE s)
         else if current_status = JOB_QUEUE_FAILED
         then (case run_exit_callback s of
                 (Inl e, s1) \<Rightarrow> (Raised e, s1)
               | (Inr _, s1) \<Rightarrow> (Finished, set_thread_status DONE s1))
         else (Raised AssertionError, set_thread_status FAILED s))"

text \<open>The whole locked block at the end of the monitor.\<close>

definition terminal_handling ::
  "int \<Rightarrow> 'a JobQueueNode \<Rightarrow> JobStatusType \<Rightarrow> completion \<times> 'a JobQueueNode"
where
  "terminal_handling max_submit s current_status =
     (if current_status = JOB_QUEUE_DONE
      then (case run_done_callback s of
              (Inl e, s1) \<Rightarrow> (Raised e, s1)
            | (Inr _, s1) \<Rightarrow> handle_final_status max_submit s1)
      else handle_final_status max_submit s)"

text \<open>The first three statements of the monitor: submit, and the first poll.\<close>

definition submit_step :: "environment \<Rightarrow> 'a JobQueueNode \<Rightarrow> 'a JobQueueNode" where
  "submit_step env s =
     (let (submit_status, s1) = submit env s
      in if submit_status \<noteq> SUBMIT_OK then set_status JOB_QUEUE_DONE s1 else s1)"

definition job_monitor ::
  "nat \<Rightarrow> environment \<Rightarrow> int \<Rightarrow> 'a JobQueueNode \<Rightarrow> completion \<times> 'a JobQueueNode"
where
  "job_monitor fuel env max_submit s =
     (let s1 = update_status env (submit_step env s)
      in case poll_loop fuel env s1 (status s1) of
           (Finished, s2, current_status) \<Rightarrow>
             (let (now, s3) = time_time env s2
              in terminal_handling max_submit (s3\<lparr>end_time := Some now\<rparr>) current_status)
         | (c, s2, _) \<Rightarrow> (c, s2))"

subsection \<open>run and wait_for\<close>

text \<open>
  The monitor runs on a thread of its own. The model runs it when it is joined: a thread
  that is alive is a monitor still to be run, and \<open>join\<close> runs it to its end. An exception
  that ends the monitor ends its thread and does not reach the caller of \<open>join\<close>; a
  monitor that never ends keeps \<open>join\<close> from returning.
\<close>

definition wait_for :: "nat \<Rightarrow> environment \<Rightarrow> 'a JobQueueNode \<Rightarrow> completion \<times> 'a JobQueueNode" where
  "wait_for fuel env s =
     (case thread s of
        Some (Thread max_submit True) \<Rightarrow>
          (case job_monitor fuel env max_submit s of
             (OutOfFuel, s1) \<Rightarrow> (OutOfFuel, s1)
           | (_, s1) \<Rightarrow>
               (Finished, s1\<lparr>thread := Some (Thread max_submit False),
                              live_monitors := live_monitors s1 - 1\<rparr>))
      | _ \<Rightarrow> (Finished, s))"

definition run :: "nat \<Rightarrow> environment \<Rightarrow> int \<Rightarrow> 'a JobQueueNode \<Rightarrow> completion \<times> 'a JobQueueNode" where
  "run fuel env max_submit s =
     (case wait_for fuel env s of
        (Finished, s1) \<Rightarrow>
          if thread_status s1 = STOPPING then (Finished, set_thread_status DONE s1)
          else (Finished,
                (set_thread_status RUNNING s1)
                  \<lparr>start_time := None,
                   thread := Some (Thread max_submit True),
                   live_monitors := Suc (live_monitors s1)\<rparr>)
      | (c, s1) \<Rightarrow> (c, s1))"

subsection \<open>Construction and observers\<close>

text \<open>
  \<open>__init__\<close>: the Python fields as the constructor sets them; the C object starts
  WAITING with no submit attempt; no call has been made yet.
\<close>

definition init ::
  "'a callback \<Rightarrow> 'a callback \<Rightarrow> 'a \<Rightarrow> real option \<Rightarrow> 'a callback option \<Rightarrow> 'a JobQueueNode"
where
  "init done_cb exit_cb args max_rt timeout_cb =
     \<lparr>done_callback_function = done_cb,
      exit_callback_function = exit_cb,
      callback_timeout = timeout_cb,
      callback_arguments = args,
      thread_status = READY,
      thread = None,
      tried_killing = 0,
      max_runtime = max_rt,
      start_time = None,
      end_time = None,
      timed_out = False,
      status = JOB_QUEUE_WAITING,
      submit_attempt = 0,
      driver_calls = [],
      callback_calls = [],
      clock_reads = 0,
      polls = 0,
      sleeps = 0,
      live_monitors = 0\<rparr>"

text \<open>The test of \<open>wait_for\<close>: there is a thread and it is alive.\<close>

definition monitor_alive :: "'a JobQueueNode \<Rightarrow> bool" where
  "monitor_alive s = (case thread s of None \<Rightarrow> False | Some t \<Rightarrow> is_alive t)"

text \<open>The ghost counter of live monitors agrees with the thread field.\<close>

definition one_monitor :: "'a JobQueueNode \<Rightarrow> bool" where
  "one_monitor s = (live_monitors s = (if monitor_alive s then 1 else 0))"

fun is_timeout_call :: "'a callback_call \<Rightarrow> bool" where
  "is_timeout_call (TimeoutCallback _) = True"
| "is_timeout_call _ = False"

text \<open>A positive limit, or none: the limits under which a runtime of zero is below the limit.\<close>

definition positive_limit :: "'a JobQueueNode \<Rightarrow> bool" where
  "positive_limit s = (case max_runtime s of None \<Rightarrow> True | Some m \<Rightarrow> 0 < m)"

text \<open>Environments used to run the model on concrete inputs.\<close>

definition quiet_env :: "(nat \<Rightarrow> JobStatusType) \<Rightarrow> environment" where
  "quiet_env reports =
     \<lparr>clock = (\<lambda>n. 10 * real n),
      submit_reply = (\<lambda>_. (SUBMIT_OK, JOB_QUEUE_SUBMITTED)),
      poll_reply = (\<lambda>k _. reports k),
      stop_requested = (\<lambda>_. False)\<rparr>"

text \<open>Callbacks used to run the model on concrete inputs.\<close>

definition accept :: "nat callback" where
  "accept = (\<lambda>_. Inr True)"

definition reject :: "nat callback" where
  "reject = (\<lambda>_. Inr False)"

definition invalid :: "nat callback" where
  "invalid = (\<lambda>_. Inl ValueError)"

text \<open>
  The node as the first statement of the locked block leaves it: after the done callback
  when the loop ended with DONE, untouched otherwise.
\<close>

definition after_done_callback :: "'a JobQueueNode \<Rightarrow> JobStatusType \<Rightarrow> 'a JobQueueNode" where
  "after_done_callback s current_status =
     (if current_status = JOB_QUEUE_DONE then snd (run_done_callback s) else s)"

text \<open>A backend that refuses every submission and reports no change afterwards.\<close>

definition refusing_env :: environment where
  "refusing_env =
     \<lparr>clock = (\<lambda>n. 10 * real n),
      submit_reply = (\<lambda>_. (SUBMIT_DRIVER_FAIL, JOB_QUEUE_WAITING)),
      poll_reply = (\<lambda>_ st. st),
      stop_requested = (\<lambda>_. False)\<rparr>"

text \<open>
  The runtime condition of the kill policy as the design document words it: a maximum
  runtime is configured and the runtime has reached or exceeded it.
\<close>

definition runtime_limit_reached :: "environment \<Rightarrow> 'a JobQueueNode \<Rightarrow> bool" where
  "runtime_limit_reached env s =
     (case max_runtime s of None \<Rightarrow> False | Some m \<Rightarrow> m \<le> fst (runtime env s))"

text \<open>The timeout callback, when there is one, returns rather than raises.\<close>

definition timeout_callback_returns :: "'a JobQueueNode \<Rightarrow> bool" where
  "timeout_callback_returns s =
     (case callback_timeout s of
        None \<Rightarrow> True
      | Some f \<Rightarrow> (case f (callback_arguments s) of Inl _ \<Rightarrow> False | Inr _ \<Rightarrow> True))"

text \<open>The calls one notification makes: one when a timeout callback is configured.\<close>

definition timeout_calls :: "'a JobQueueNode \<Rightarrow> 'a callback_call list" where
  "timeout_calls s =
     (case callback_timeout s of
        None \<Rightarrow> []
      | Some _ \<Rightarrow> [TimeoutCallback (callback_arguments s)])"

text \<open>Nodes used to run the kill policy on concrete inputs.\<close>

definition zero_limit_node :: "nat JobQueueNode" where
  "zero_limit_node = (init accept accept 7 (Some 0) (Some accept))\<lparr>thread_status := RUNNING\<rparr>"

definition late_node :: "nat JobQueueNode" where
  "late_node = (init accept accept 7 (Some 5) (Some accept))
                  \<lparr>thread_status := RUNNING, start_time := Some 2, clock_reads := 1\<rparr>"

text \<open>
  The same node with a timeout callback that raises, and a wall clock that is set back
  after its second reading (\<open>time.time()\<close> follows the system clock).
\<close>

definition raising_node :: "nat JobQueueNode" where
  "raising_node = late_node\<lparr>callback_timeout := Some (\<lambda>_. Inl OtherError)\<rparr>"

definition backward_clock :: environment where
  "backward_clock =
     (quiet_env (\<lambda>_. JOB_QUEUE_RUNNING))\<lparr>clock := (\<lambda>n. if n = 1 then 10 else 0)\<rparr>"

text \<open>
  A node as its callers build it: simulation_context.py passes \<open>None\<close> for a maximum
  runtime of zero, so the limit of a node is none or a number other than zero.
\<close>

definition limit_as_built :: "'a JobQueueNode \<Rightarrow> bool" where
  "limit_as_built s = (max_runtime s \<noteq> Some 0)"

text \<open>
  A node on which the runtime condition cannot hold: no start time, a positive limit or
  none, and a queue status other than RUNNING (so no start time will be recorded).
\<close>

definition idle :: "'a JobQueueNode \<Rightarrow> bool" where
  "idle s = (start_time s = None \<and> positive_limit s \<and> status s \<noteq> JOB_QUEUE_RUNNING)"

text \<open>What one pass of the loop does to such a node: sleep, poll, and kill on STOPPING only.\<close>

definition quiet_pass :: "environment \<Rightarrow> 'a JobQueueNode \<Rightarrow> 'a JobQueueNode" where
  "quiet_pass env s =
     (let s3 = update_status env (sleep env s)
      in if thread_status s3 = STOPPING then kill s3 else s3)"

text \<open>A started node with a limit of five seconds, and a backend that never runs the job.\<close>

definition patient_node :: "nat JobQueueNode" where
  "patient_node = (init accept accept 7 (Some 5) (Some accept))\<lparr>thread_status := RUNNING\<rparr>"

definition pending_then_exit :: environment where
  "pending_then_exit = quiet_env (\<lambda>k. if k < 2 then JOB_QUEUE_PENDING else JOB_QUEUE_EXIT)"

text \<open>Two states agree on the thread and on the count of live monitors.\<close>

definition same_threads :: "'a JobQueueNode \<Rightarrow> 'a JobQueueNode \<Rightarrow> bool" where
  "same_threads s s' = (thread s' = thread s \<and> live_monitors s' = live_monitors s)"

text \<open>A node that was started and then told to stop: its monitor is alive.\<close>

definition stopping_node :: "nat JobQueueNode" where
  "stopping_node =
     snd (stop (snd (run 0 (quiet_env (\<lambda>_. JOB_QUEUE_IS_KILLED)) 2
                       (init accept accept 7 None None))))"

text \<open>
  A node with a limit of five seconds whose first attempt ends with EXIT and is retried:
  the backend reports EXIT to the first status query and RUNNING to all later ones.
\<close>

definition exit_then_running :: environment where
  "exit_then_running = quiet_env (\<lambda>k. if k = 0 then JOB_QUEUE_EXIT else JOB_QUEUE_RUNNING)"

definition limited_node :: "nat JobQueueNode" where
  "limited_node = init reject accept 7 (Some 5) None"

definition retried_node :: "nat JobQueueNode" where
  "retried_node =
     snd (run 0 exit_then_running 2 (snd (run 0 exit_then_running 2 limited_node)))"

text \<open>
  The scenario of the design document: \<open>max_submit = 2\<close> and a backend that always
  reports EXIT. The node is run, run again, and its last monitor is joined.
\<close>

definition always_exit_run :: "nat JobQueueNode" where
  "always_exit_run =
     snd (wait_for 0 (quiet_env (\<lambda>_. JOB_QUEUE_EXIT))
       (snd (run 0 (quiet_env (\<lambda>_. JOB_QUEUE_EXIT)) 2
         (snd (run 0 (quiet_env (\<lambda>_. JOB_QUEUE_EXIT)) 2 (init accept accept 7 None None))))))"

section \<open>Properties\<close>

subsection \<open>The kill operation\<close>

text \<open>
  C6. Every call of the kill operation calls the driver's kill once and adds exactly one
  to the kill-attempt counter; no other field of the node changes, and in particular the
  queue status is the one from before the call.
\<close>

theorem kill_frame:
  "kill s = s\<lparr>driver_calls := driver_calls s @ [DriverKill], tried_killing := tried_killing s + 1\<rparr>
   \<and> driver_calls (kill s) = driver_calls s @ [DriverKill]
   \<and> tried_killing (kill s) = tried_killing s + 1
   \<and> status (kill s) = status s"
  by (simp add: kill_def run_kill_def Let_def)

subsection \<open>stop\<close>

text \<open>
  C4. Whatever the worker status, \<open>stop()\<close> returns without its assertion failing and
  leaves the worker status in DONE, STOPPING or FAILED. From RUNNING it goes to STOPPING
  and changes nothing else; from READY it goes to DONE, sets the queue status FAILED and
  makes no driver call; from any other worker status it changes nothing.
\<close>

theorem stop_postcondition:
  "fst (stop s) = Finished
   \<and> thread_status (snd (stop s)) \<in> {DONE, STOPPING, FAILED}
   \<and> (thread_status s = RUNNING \<longrightarrow> snd (stop s) = s\<lparr>thread_status := STOPPING\<rparr>)
   \<and> (thread_status s = READY \<longrightarrow>
        snd (stop s) = s\<lparr>thread_status := DONE, status := JOB_QUEUE_FAILED\<rparr>
        \<and> driver_calls (snd (stop s)) = driver_calls s)
   \<and> (thread_status s \<noteq> RUNNING \<and> thread_status s \<noteq> READY \<longrightarrow> snd (stop s) = s)"
  by (cases "thread_status s") (simp_all add: stop_def set_thread_status_def set_status_def Let_def)

theorem stop_postcondition_witness:
  "thread_status (init (\<lambda>_. Inr True) (\<lambda>_. Inr True) () None None) = READY
   \<and> fst (stop (init (\<lambda>_. Inr True) (\<lambda>_. Inr True) () None None)) = Finished
   \<and> thread_status (snd (stop (init (\<lambda>_. Inr True) (\<lambda>_. Inr True) () None None))) = DONE
   \<and> status (snd (stop (init (\<lambda>_. Inr True) (\<lambda>_. Inr True) () None None))) = JOB_QUEUE_FAILED
   \<and> driver_calls (snd (stop (init (\<lambda>_. Inr True) (\<lambda>_. Inr True) () None None))) = []"
  using stop_postcondition [of "init (\<lambda>_. Inr True) (\<lambda>_. Inr True) () None None"]
  by (simp add: init_def)

subsection \<open>runtime\<close>

text \<open>
  C8. The runtime is 0 when no start time is recorded; it is the clock reading minus the
  start time while no end time is recorded; and it is the end time minus the start time,
  whatever the clock says, once an end time is recorded.
\<close>

theorem runtime_cases:
  "(start_time s = None \<longrightarrow> fst (runtime env s) = 0)
   \<and> (start_time s = Some st \<and> end_time s = None \<longrightarrow>
        fst (runtime env s) = clock env (clock_reads s) - st)
   \<and> (start_time s = Some st \<and> end_time s = Some en \<longrightarrow> fst (runtime env s) = en - st)"
  by (simp add: runtime_def time_time_def)

theorem runtime_cases_witness:
  "fst (runtime (quiet_env (\<lambda>_. JOB_QUEUE_RUNNING)) (init (\<lambda>_. Inr True) (\<lambda>_. Inr True) () None None)) = 0
   \<and> fst (runtime (quiet_env (\<lambda>_. JOB_QUEUE_RUNNING))
        ((init (\<lambda>_. Inr True) (\<lambda>_. Inr True) () None None)\<lparr>start_time := Some 3, clock_reads := 2\<rparr>)) = 17
   \<and> fst (runtime (quiet_env (\<lambda>_. JOB_QUEUE_RUNNING))
        ((init (\<lambda>_. Inr True) (\<lambda>_. Inr True) () None None)\<lparr>start_time := Some 3, end_time := Some 8\<rparr>)) = 5"
  using runtime_cases [where s = "init (\<lambda>_. Inr True) (\<lambda>_. Inr True) () None None" and env = "quiet_env (\<lambda>_. JOB_QUEUE_RUNNING)"]
        runtime_cases [where s = "(init (\<lambda>_. Inr True) (\<lambda>_. Inr True) () None None)\<lparr>start_time := Some 3, clock_reads := 2\<rparr>" and st = 3 and env = "quiet_env (\<lambda>_. JOB_QUEUE_RUNNING)"]
        runtime_cases [where s = "(init (\<lambda>_. Inr True) (\<lambda>_. Inr True) () None None)\<lparr>start_time := Some 3, end_time := Some 8\<rparr>" and st = 3 and en = 8 and env = "quiet_env (\<lambda>_. JOB_QUEUE_RUNNING)"]
  by (simp add: init_def quiet_env_def)

subsection \<open>The done callback\<close>

lemma run_done_callback_returns:
  "done_callback_function s (callback_arguments s) = Inr b \<Longrightarrow>
   run_done_callback s =
     (Inr b, s\<lparr>callback_calls := callback_calls s @ [DoneCallback (callback_arguments s)],
               status := (if b then JOB_QUEUE_SUCCESS else JOB_QUEUE_EXIT)\<rparr>)"
  by (simp add: run_done_callback_def set_status_def Let_def)

lemma run_done_callback_value_error:
  "done_callback_function s (callback_arguments s) = Inl ValueError \<Longrightarrow>
   run_done_callback s =
     (Inr False, s\<lparr>callback_calls := callback_calls s @ [DoneCallback (callback_arguments s)],
                   status := JOB_QUEUE_FAILED\<rparr>)"
  by (simp add: run_done_callback_def set_status_def Let_def)

text \<open>
  C1. When the loop has ended with queue status DONE, the done callback is called with
  the caller's arguments. If it returns true the queue status becomes SUCCESS and the
  monitor finishes with worker status DONE; if it returns false the queue status becomes
  EXIT; if it raises ValueError the error is not passed on, the callback's result counts
  as false, the queue status becomes FAILED, and the exit callback is then called once
  with the caller's arguments.
\<close>

theorem done_callback_outcomes:
  "(done_callback_function s (callback_arguments s) = Inr True \<longrightarrow>
      run_done_callback s =
        (Inr True, s\<lparr>callback_calls := callback_calls s @ [DoneCallback (callback_arguments s)],
                      status := JOB_QUEUE_SUCCESS\<rparr>)
      \<and> terminal_handling max_submit s JOB_QUEUE_DONE =
        (Finished, s\<lparr>callback_calls := callback_calls s @ [DoneCallback (callback_arguments s)],
                      status := JOB_QUEUE_SUCCESS, thread_status := DONE\<rparr>))
   \<and> (done_callback_function s (callback_arguments s) = Inr False \<longrightarrow>
      run_done_callback s =
        (Inr False, s\<lparr>callback_calls := callback_calls s @ [DoneCallback (callback_arguments s)],
                       status := JOB_QUEUE_EXIT\<rparr>))
   \<and> (done_callback_function s (callback_arguments s) = Inl ValueError \<longrightarrow>
      run_done_callback s =
        (Inr False, s\<lparr>callback_calls := callback_calls s @ [DoneCallback (callback_arguments s)],
                       status := JOB_QUEUE_FAILED\<rparr>)
      \<and> terminal_handling max_submit s JOB_QUEUE_DONE =
        (case exit_callback_function s (callback_arguments s) of
           Inl e \<Rightarrow>
             (Raised e,
              s\<lparr>callback_calls := callback_calls s @ [DoneCallback (callback_arguments s),
                                                        ExitCallback (callback_arguments s)],
                status := JOB_QUEUE_FAILED\<rparr>)
         | Inr _ \<Rightarrow>
             (Finished,
              s\<lparr>callback_calls := callback_calls s @ [DoneCallback (callback_arguments s),
                                                        ExitCallback (callback_arguments s)],
                status := JOB_QUEUE_FAILED, thread_status := DONE\<rparr>)))"
proof (intro conjI impI)
  assume t: "done_callback_function s (callback_arguments s) = Inr True"
  from run_done_callback_returns [OF t]
  show "run_done_callback s =
        (Inr True, s\<lparr>callback_calls := callback_calls s @ [DoneCallback (callback_arguments s)],
                      status := JOB_QUEUE_SUCCESS\<rparr>)" by simp
  from run_done_callback_returns [OF t]
  show "terminal_handling max_submit s JOB_QUEUE_DONE =
        (Finished, s\<lparr>callback_calls := callback_calls s @ [DoneCallback (callback_arguments s)],
                      status := JOB_QUEUE_SUCCESS, thread_status := DONE\<rparr>)"
    by (simp add: terminal_handling_def handle_final_status_def set_thread_status_def)
next
  assume f: "done_callback_function s (callback_arguments s) = Inr False"
  from run_done_callback_returns [OF f]
  show "run_done_callback s =
        (Inr False, s\<lparr>callback_calls := callback_calls s @ [DoneCallback (callback_arguments s)],
                       status := JOB_QUEUE_EXIT\<rparr>)" by simp
next
  assume v: "done_callback_function s (callback_arguments s) = Inl ValueError"
  from run_done_callback_value_error [OF v]
  show "run_done_callback s =
        (Inr False, s\<lparr>callback_calls := callback_calls s @ [DoneCallback (callback_arguments s)],
                       status := JOB_QUEUE_FAILED\<rparr>)" .
  from run_done_callback_value_error [OF v]
  show "terminal_handling max_submit s JOB_QUEUE_DONE =
        (case exit_callback_function s (callback_arguments s) of
           Inl e \<Rightarrow>
             (Raised e,
              s\<lparr>callback_calls := callback_calls s @ [DoneCallback (callback_arguments s),
                                                        ExitCallback (callback_arguments s)],
                status := JOB_QUEUE_FAILED\<rparr>)
         | Inr _ \<Rightarrow>
             (Finished,
              s\<lparr>callback_calls := callback_calls s @ [DoneCallback (callback_arguments s),
                                                        ExitCallback (callback_arguments s)],
                status := JOB_QUEUE_FAILED, thread_status := DONE\<rparr>))"
    by (simp add: terminal_handling_def handle_final_status_def run_exit_callback_def
                  set_thread_status_def split: sum.splits)
qed

theorem done_callback_outcomes_witness:
  "terminal_handling 2 (init accept accept 7 None None) JOB_QUEUE_DONE =
     (Finished, (init accept accept 7 None None)
                  \<lparr>callback_calls := [DoneCallback 7], status := JOB_QUEUE_SUCCESS,
                   thread_status := DONE\<rparr>)
   \<and> status (snd (run_done_callback (init reject accept 7 None None))) = JOB_QUEUE_EXIT
   \<and> terminal_handling 2 (init invalid accept 7 None None) JOB_QUEUE_DONE =
     (Finished, (init invalid accept 7 None None)
                  \<lparr>callback_calls := [DoneCallback 7, ExitCallback 7], status := JOB_QUEUE_FAILED,
                   thread_status := DONE\<rparr>)"
  using done_callback_outcomes [of "init accept accept 7 None None" 2]
        done_callback_outcomes [of "init reject accept 7 None None" 2]
        done_callback_outcomes [of "init invalid accept 7 None None" 2]
  by (simp add: init_def accept_def reject_def invalid_def)

subsection \<open>The status EXIT: retry or fail\<close>

lemma handle_final_status_exit_retry:
  "status s = JOB_QUEUE_EXIT \<Longrightarrow> int (submit_attempt s) < max_submit \<Longrightarrow>
   handle_final_status max_submit s = (Finished, s\<lparr>thread_status := READY\<rparr>)"
  by (simp add: handle_final_status_def set_thread_status_def)

lemma handle_final_status_exit_give_up:
  "status s = JOB_QUEUE_EXIT \<Longrightarrow> \<not> int (submit_attempt s) < max_submit \<Longrightarrow>
   handle_final_status max_submit s =
     (case exit_callback_function s (callback_arguments s) of
        Inl e \<Rightarrow>
          (Raised e,
           s\<lparr>status := JOB_QUEUE_FAILED,
             callback_calls := callback_calls s @ [ExitCallback (callback_arguments s)]\<rparr>)
      | Inr _ \<Rightarrow>
          (Finished,
           s\<lparr>status := JOB_QUEUE_FAILED,
             callback_calls := callback_calls s @ [ExitCallback (callback_arguments s)],
             thread_status := DONE\<rparr>))"
  by (simp add: handle_final_status_def run_exit_callback_def set_thread_status_def
                set_status_def split: sum.splits)

lemma terminal_handling_after_callback:
  "current_status = JOB_QUEUE_DONE \<longrightarrow> done_callback_function s (callback_arguments s) = Inr b \<Longrightarrow>
   terminal_handling max_submit s current_status =
     handle_final_status max_submit (after_done_callback s current_status)"
  by (auto simp: terminal_handling_def after_done_callback_def run_done_callback_def Let_def)

text \<open>
  C2. When the queue status after the done callback is EXIT (the callback returned false,
  or the loop ended with EXIT and no callback ran): if the number of submit attempts is
  below \<open>max_submit\<close>, the worker status is set to READY and the monitor returns at once,
  with no exit callback and without the worker status DONE; otherwise the queue status is
  set to FAILED and the exit callback is called exactly once, after which the worker
  status is DONE.
\<close>

theorem exit_retry_or_fail:
  assumes rejected: "current_status = JOB_QUEUE_DONE \<longrightarrow>
                       done_callback_function s (callback_arguments s) = Inr False"
    and reported: "current_status \<noteq> JOB_QUEUE_DONE \<longrightarrow> status s = JOB_QUEUE_EXIT"
  shows "(int (submit_attempt s) < max_submit \<longrightarrow>
            terminal_handling max_submit s current_status =
              (Finished, (after_done_callback s current_status)\<lparr>thread_status := READY\<rparr>))
       \<and> (\<not> int (submit_attempt s) < max_submit \<longrightarrow>
            terminal_handling max_submit s current_status =
              (case exit_callback_function s (callback_arguments s) of
                 Inl e \<Rightarrow>
                   (Raised e,
                    (after_done_callback s current_status)
                      \<lparr>status := JOB_QUEUE_FAILED,
                       callback_calls := callback_calls (after_done_callback s current_status)
                                         @ [ExitCallback (callback_arguments s)]\<rparr>)
               | Inr _ \<Rightarrow>
                   (Finished,
                    (after_done_callback s current_status)
                      \<lparr>status := JOB_QUEUE_FAILED,
                       callback_calls := callback_calls (after_done_callback s current_status)
                                         @ [ExitCallback (callback_arguments s)],
                       thread_status := DONE\<rparr>)))"
proof -
  let ?s1 = "after_done_callback s current_status"
  have same: "submit_attempt ?s1 = submit_attempt s"
             "exit_callback_function ?s1 = exit_callback_function s"
             "callback_arguments ?s1 = callback_arguments s"
    by (auto simp: after_done_callback_def run_done_callback_def set_status_def Let_def
             split: sum.splits exn.splits)
  have th: "terminal_handling max_submit s current_status = handle_final_status max_submit ?s1"
    using rejected by (rule terminal_handling_after_callback)
  have exit: "status ?s1 = JOB_QUEUE_EXIT"
    using rejected reported
    by (auto simp: after_done_callback_def run_done_callback_def set_status_def Let_def)
  show ?thesis
  proof (intro conjI impI)
    assume "int (submit_attempt s) < max_submit"
    then show "terminal_handling max_submit s current_status
               = (Finished, ?s1\<lparr>thread_status := READY\<rparr>)"
      using handle_final_status_exit_retry [OF exit, of max_submit] th same by simp
  next
    assume "\<not> int (submit_attempt s) < max_submit"
    then show "terminal_handling max_submit s current_status =
              (case exit_callback_function s (callback_arguments s) of
                 Inl e \<Rightarrow>
                   (Raised e,
                    ?s1\<lparr>status := JOB_QUEUE_FAILED,
                       callback_calls := callback_calls ?s1
                                         @ [ExitCallback (callback_arguments s)]\<rparr>)
               | Inr _ \<Rightarrow>
                   (Finished,
                    ?s1\<lparr>status := JOB_QUEUE_FAILED,
                       callback_calls := callback_calls ?s1
                                         @ [ExitCallback (callback_arguments s)],
                       thread_status := DONE\<rparr>))"
      using handle_final_status_exit_give_up [OF exit, of max_submit] th same
        by (simp cong: sum.case_cong)
  qed
qed

theorem exit_retry_or_fail_witness:
  "terminal_handling 2 ((init reject accept 7 None None)\<lparr>submit_attempt := 1\<rparr>) JOB_QUEUE_DONE =
     (Finished, (init reject accept 7 None None)
                  \<lparr>submit_attempt := 1, callback_calls := [DoneCallback 7],
                   status := JOB_QUEUE_EXIT, thread_status := READY\<rparr>)
   \<and> terminal_handling 2 ((init reject accept 7 None None)\<lparr>submit_attempt := 2\<rparr>) JOB_QUEUE_DONE =
     (Finished, (init reject accept 7 None None)
                  \<lparr>submit_attempt := 2, callback_calls := [DoneCallback 7, ExitCallback 7],
                   status := JOB_QUEUE_FAILED, thread_status := DONE\<rparr>)
   \<and> terminal_handling 2
       ((init accept accept 7 None None)\<lparr>submit_attempt := 2, status := JOB_QUEUE_EXIT\<rparr>)
       JOB_QUEUE_EXIT =
     (Finished, (init accept accept 7 None None)
                  \<lparr>submit_attempt := 2, callback_calls := [ExitCallback 7],
                   status := JOB_QUEUE_FAILED, thread_status := DONE\<rparr>)"
  using exit_retry_or_fail [of JOB_QUEUE_DONE "(init reject accept 7 None None)\<lparr>submit_attempt := 1\<rparr>" 2]
        exit_retry_or_fail [of JOB_QUEUE_DONE "(init reject accept 7 None None)\<lparr>submit_attempt := 2\<rparr>" 2]
        exit_retry_or_fail [of JOB_QUEUE_EXIT "(init accept accept 7 None None)\<lparr>submit_attempt := 2, status := JOB_QUEUE_EXIT\<rparr>" 2]
  by (simp add: init_def accept_def reject_def after_done_callback_def run_done_callback_def
                set_status_def)

subsection \<open>A failed submission\<close>

lemma submit_step_failed:
  "fst (submit_reply env (submit_attempt s)) \<noteq> SUBMIT_OK \<Longrightarrow>
   submit_step env s = (snd (submit env s))\<lparr>status := JOB_QUEUE_DONE\<rparr>"
  by (simp add: submit_step_def submit_def set_status_def Let_def)

lemma poll_loop_not_running:
  "\<not> is_running s (Some current_status) \<Longrightarrow>
   poll_loop fuel env s current_status = (Finished, s, current_status)"
  by (cases fuel) simp_all

text \<open>
  C3. When the submit call returns anything but OK, the queue status is set to DONE at
  once and nothing is raised: the monitor goes on as after any submit. When the first
  status query leaves DONE in place, the loop body is not entered and the monitor is the
  locked block at its end, entered with status DONE.
\<close>

theorem submit_failure_is_done:
  assumes failed: "fst (submit_reply env (submit_attempt s)) \<noteq> SUBMIT_OK"
  shows "status (submit_step env s) = JOB_QUEUE_DONE
       \<and> submit_step env s = (snd (submit env s))\<lparr>status := JOB_QUEUE_DONE\<rparr>
       \<and> (poll_reply env (polls s) JOB_QUEUE_DONE = JOB_QUEUE_DONE \<longrightarrow>
            job_monitor fuel env max_submit s =
              terminal_handling max_submit
                ((c_update_status env (submit_step env s))
                   \<lparr>clock_reads := Suc (clock_reads s),
                    end_time := Some (clock env (clock_reads s))\<rparr>)
                JOB_QUEUE_DONE)"
proof (intro conjI impI)
  show step: "submit_step env s = (snd (submit env s))\<lparr>status := JOB_QUEUE_DONE\<rparr>"
    using failed by (rule submit_step_failed)
  then show dn: "status (submit_step env s) = JOB_QUEUE_DONE" by simp
  assume keeps: "poll_reply env (polls s) JOB_QUEUE_DONE = JOB_QUEUE_DONE"
  let ?s1 = "update_status env (submit_step env s)"
  have upd: "?s1 = c_update_status env (submit_step env s)"
    using dn by (simp add: update_status_def)
  have same: "polls (submit_step env s) = polls s" "clock_reads (submit_step env s) = clock_reads s"
    using step by (simp_all add: submit_def Let_def)
  have st: "status ?s1 = JOB_QUEUE_DONE" "clock_reads ?s1 = clock_reads s"
    using dn keeps same by (simp_all add: upd c_update_status_def)
  have loop: "poll_loop fuel env ?s1 (status ?s1) = (Finished, ?s1, JOB_QUEUE_DONE)"
    using st by (simp add: poll_loop_not_running is_running_def)
  show "job_monitor fuel env max_submit s =
          terminal_handling max_submit
            ((c_update_status env (submit_step env s))
               \<lparr>clock_reads := Suc (clock_reads s),
                end_time := Some (clock env (clock_reads s))\<rparr>)
            JOB_QUEUE_DONE"
    using loop st by (simp add: job_monitor_def Let_def time_time_def upd)
qed

theorem submit_failure_is_done_witness:
  "fst (submit_reply refusing_env 0) \<noteq> SUBMIT_OK
   \<and> status (submit_step refusing_env (init reject accept 7 None None)) = JOB_QUEUE_DONE
   \<and> job_monitor 0 refusing_env 1 (init reject accept 7 None None) =
       (Finished, (init reject accept 7 None None)
          \<lparr>submit_attempt := 1, driver_calls := [DriverSubmit, DriverPoll], polls := 1,
           clock_reads := 1, end_time := Some 0,
           callback_calls := [DoneCallback 7, ExitCallback 7],
           status := JOB_QUEUE_FAILED, thread_status := DONE\<rparr>)"
  using submit_failure_is_done [of refusing_env "init reject accept 7 None None" 0 1]
  by (simp add: refusing_env_def init_def reject_def accept_def submit_step_def submit_def
        c_update_status_def terminal_handling_def run_done_callback_def handle_final_status_def
        run_exit_callback_def set_status_def set_thread_status_def Let_def)

subsection \<open>The kill policy\<close>

lemma should_be_killed_iff:
  "fst (should_be_killed env s) = (thread_status s = STOPPING \<or> runtime_limit_reached env s)"
  by (simp add: should_be_killed_def runtime_limit_reached_def split_beta split: option.splits)

lemma runtime_frame: "\<exists>n. snd (runtime env s) = s\<lparr>clock_reads := n\<rparr>"
proof (cases "start_time s = None \<or> end_time s \<noteq> None")
  case True
  then have "snd (runtime env s) = s\<lparr>clock_reads := clock_reads s\<rparr>"
    by (auto simp: runtime_def split: option.splits)
  then show ?thesis by blast
next
  case False
  then have "snd (runtime env s) = s\<lparr>clock_reads := Suc (clock_reads s)\<rparr>"
    by (auto simp: runtime_def time_time_def split: option.splits)
  then show ?thesis by blast
qed

lemma should_be_killed_frame: "\<exists>n. snd (should_be_killed env s) = s\<lparr>clock_reads := n\<rparr>"
proof (cases "thread_status s = STOPPING \<or> max_runtime s = None")
  case True
  then have "snd (should_be_killed env s) = s\<lparr>clock_reads := clock_reads s\<rparr>"
    by (auto simp: should_be_killed_def)
  then show ?thesis by blast
next
  case False
  then have "snd (should_be_killed env s) = snd (runtime env s)"
    by (auto simp: should_be_killed_def split_beta)
  then show ?thesis using runtime_frame [of env s] by simp
qed

lemma max_runtime_reached_frame: "\<exists>n. snd (max_runtime_reached env s) = s\<lparr>clock_reads := n\<rparr>"
proof (cases "max_runtime s = None \<or> max_runtime s = Some 0")
  case True
  then have "snd (max_runtime_reached env s) = s\<lparr>clock_reads := clock_reads s\<rparr>"
    by (auto simp: max_runtime_reached_def)
  then show ?thesis by blast
next
  case False
  then have "snd (max_runtime_reached env s) = snd (runtime env s)"
    by (auto simp: max_runtime_reached_def split_beta)
  then show ?thesis using runtime_frame [of env s] by simp
qed

lemma should_be_killed_fields:
  "tried_killing (snd (should_be_killed env s)) = tried_killing s
   \<and> driver_calls (snd (should_be_killed env s)) = driver_calls s
   \<and> callback_calls (snd (should_be_killed env s)) = callback_calls s
   \<and> callback_timeout (snd (should_be_killed env s)) = callback_timeout s
   \<and> callback_arguments (snd (should_be_killed env s)) = callback_arguments s"
  using should_be_killed_frame [of env s] by auto

lemma max_runtime_reached_fields:
  "tried_killing (snd (max_runtime_reached env s)) = tried_killing s
   \<and> driver_calls (snd (max_runtime_reached env s)) = driver_calls s
   \<and> callback_calls (snd (max_runtime_reached env s)) = callback_calls s
   \<and> callback_timeout (snd (max_runtime_reached env s)) = callback_timeout s
   \<and> callback_arguments (snd (max_runtime_reached env s)) = callback_arguments s"
  using max_runtime_reached_frame [of env s] by auto

lemma kill_fields:
  "tried_killing (kill s) = Suc (tried_killing s)
   \<and> driver_calls (kill s) = driver_calls s @ [DriverKill]
   \<and> callback_calls (kill s) = callback_calls s
   \<and> callback_timeout (kill s) = callback_timeout s
   \<and> callback_arguments (kill s) = callback_arguments s"
  by (simp add: kill_def run_kill_def Let_def)


lemma kill_policy_not_killed:
  "\<not> fst (should_be_killed env s) \<Longrightarrow>
   kill_policy env s = (Finished, snd (should_be_killed env s))"
  by (simp add: kill_policy_def split_beta)

lemma kill_policy_killed:
  "fst (should_be_killed env s) \<Longrightarrow>
   kill_policy env s =
     (if fst (max_runtime_reached env (kill (snd (should_be_killed env s))))
      then notify_timeout (snd (max_runtime_reached env (kill (snd (should_be_killed env s)))))
      else (Finished, snd (max_runtime_reached env (kill (snd (should_be_killed env s))))))"
  by (simp add: kill_policy_def split_beta Let_def)

lemma notify_timeout_frame:
  "tried_killing (snd (notify_timeout s)) = tried_killing s"
  "driver_calls (snd (notify_timeout s)) = driver_calls s"
  "callback_calls (snd (notify_timeout s)) = callback_calls s @ timeout_calls s"
  by (simp_all add: notify_timeout_def timeout_calls_def Let_def split: option.splits sum.splits)

lemma notify_timeout_returns:
  "timeout_callback_returns s \<Longrightarrow>
   fst (notify_timeout s) = Finished \<and> timed_out (snd (notify_timeout s))"
  by (simp add: notify_timeout_def timeout_callback_returns_def Let_def
           split: option.splits sum.splits)

lemma kill_policy_kills:
  "tried_killing (snd (kill_policy env s)) =
     tried_killing s + (if fst (should_be_killed env s) then 1 else 0)
   \<and> driver_calls (snd (kill_policy env s)) =
     driver_calls s @ (if fst (should_be_killed env s) then [DriverKill] else [])"
proof (cases "fst (should_be_killed env s)")
  case False
  then show ?thesis
    by (simp add: kill_policy_not_killed should_be_killed_fields)
next
  case True
  then show ?thesis
    by (simp add: kill_policy_killed notify_timeout_frame max_runtime_reached_fields
                  kill_fields should_be_killed_fields)
qed

lemma second_reading:
  assumes limit: "max_runtime s = Some m" "m \<le> fst (runtime env s)" "m \<noteq> 0"
    and clock: "clock env (clock_reads s) \<le> clock env (Suc (clock_reads s))"
  shows "fst (max_runtime_reached env (kill (snd (should_be_killed env s))))"
proof (cases "thread_status s = STOPPING")
  case True
  then show ?thesis using limit
    by (auto simp: should_be_killed_def max_runtime_reached_def kill_def run_kill_def runtime_def
                   time_time_def Let_def split_beta split: option.splits)
next
  case False
  then show ?thesis using limit clock
    by (auto simp: should_be_killed_def max_runtime_reached_def kill_def run_kill_def runtime_def
                   time_time_def Let_def split_beta split: option.splits)
qed

text \<open>
  C5, as amended. In each pass of the loop a kill is attempted exactly when the worker
  status is STOPPING or a maximum runtime is configured and the runtime has reached or
  exceeded it. Whenever that runtime condition holds, on a node as its callers build it
  and on a clock that has not gone back when the runtime is read again after the kill,
  the timeout callback, if one is configured, is called with the caller's arguments and,
  if it returns rather than raises, the timed-out flag is set.
\<close>

theorem kill_policy_spec:
  "fst (should_be_killed env s) = (thread_status s = STOPPING \<or> runtime_limit_reached env s)
   \<and> tried_killing (snd (kill_policy env s)) =
       tried_killing s + (if thread_status s = STOPPING \<or> runtime_limit_reached env s then 1 else 0)
   \<and> driver_calls (snd (kill_policy env s)) =
       driver_calls s @ (if thread_status s = STOPPING \<or> runtime_limit_reached env s
                         then [DriverKill] else [])
   \<and> (runtime_limit_reached env s \<and> limit_as_built s
        \<and> clock env (clock_reads s) \<le> clock env (Suc (clock_reads s)) \<longrightarrow>
        callback_calls (snd (kill_policy env s)) = callback_calls s @ timeout_calls s
        \<and> (timeout_callback_returns s \<longrightarrow>
             fst (kill_policy env s) = Finished \<and> timed_out (snd (kill_policy env s))))"
proof (intro conjI impI)
  show "fst (should_be_killed env s) = (thread_status s = STOPPING \<or> runtime_limit_reached env s)"
    by (rule should_be_killed_iff)
  show "tried_killing (snd (kill_policy env s)) =
       tried_killing s + (if thread_status s = STOPPING \<or> runtime_limit_reached env s then 1 else 0)"
    using kill_policy_kills [of env s] by (simp add: should_be_killed_iff)
  show "driver_calls (snd (kill_policy env s)) =
       driver_calls s @ (if thread_status s = STOPPING \<or> runtime_limit_reached env s
                         then [DriverKill] else [])"
    using kill_policy_kills [of env s] by (simp add: should_be_killed_iff)
next
  assume a: "runtime_limit_reached env s \<and> limit_as_built s
        \<and> clock env (clock_reads s) \<le> clock env (Suc (clock_reads s))"
  then obtain m where m: "max_runtime s = Some m" "m \<le> fst (runtime env s)" "m \<noteq> 0"
    by (auto simp: runtime_limit_reached_def limit_as_built_def split: option.splits)
  have killed: "fst (should_be_killed env s)"
    using a by (simp add: should_be_killed_iff)
  have again: "fst (max_runtime_reached env (kill (snd (should_be_killed env s))))"
    using m a by (auto intro: second_reading)
  let ?s3 = "snd (max_runtime_reached env (kill (snd (should_be_killed env s))))"
  have kp: "kill_policy env s = notify_timeout ?s3"
    using killed again by (simp add: kill_policy_killed)
  have same: "callback_calls ?s3 = callback_calls s" "timeout_calls ?s3 = timeout_calls s"
             "timeout_callback_returns ?s3 = timeout_callback_returns s"
    by (simp_all add: timeout_calls_def timeout_callback_returns_def max_runtime_reached_fields
                      kill_fields should_be_killed_fields
                 cong: option.case_cong sum.case_cong)
  show "callback_calls (snd (kill_policy env s)) = callback_calls s @ timeout_calls s"
    by (simp add: kp notify_timeout_frame same)
  assume "timeout_callback_returns s"
  then have "timeout_callback_returns ?s3" by (simp add: same)
  from notify_timeout_returns [OF this]
  show "fst (kill_policy env s) = Finished" "timed_out (snd (kill_policy env s))"
    by (simp_all add: kp)
qed

theorem kill_policy_spec_witness:
  "runtime_limit_reached (quiet_env (\<lambda>_. JOB_QUEUE_RUNNING)) late_node
   \<and> limit_as_built late_node
   \<and> timeout_callback_returns late_node
   \<and> kill_policy (quiet_env (\<lambda>_. JOB_QUEUE_RUNNING)) late_node =
       (Finished, late_node\<lparr>clock_reads := 3, driver_calls := [DriverKill], tried_killing := 1,
                             callback_calls := [TimeoutCallback 7], timed_out := True\<rparr>)
   \<and> kill_policy (quiet_env (\<lambda>_. JOB_QUEUE_RUNNING)) (late_node\<lparr>max_runtime := Some 50\<rparr>) =
       (Finished, late_node\<lparr>max_runtime := Some 50, clock_reads := 2\<rparr>)
   \<and> limit_as_built (late_node\<lparr>max_runtime := Some (- 1), start_time := None\<rparr>)
   \<and> kill_policy (quiet_env (\<lambda>_. JOB_QUEUE_RUNNING))
         (late_node\<lparr>max_runtime := Some (- 1), start_time := None\<rparr>) =
       (Finished, late_node\<lparr>max_runtime := Some (- 1), start_time := None,
                             driver_calls := [DriverKill], tried_killing := 1,
                             callback_calls := [TimeoutCallback 7], timed_out := True\<rparr>)"
  using kill_policy_spec [of "quiet_env (\<lambda>_. JOB_QUEUE_RUNNING)" late_node]
        kill_policy_spec [of "quiet_env (\<lambda>_. JOB_QUEUE_RUNNING)" "late_node\<lparr>max_runtime := Some 50\<rparr>"]
        kill_policy_spec [of "quiet_env (\<lambda>_. JOB_QUEUE_RUNNING)"
                             "late_node\<lparr>max_runtime := Some (- 1), start_time := None\<rparr>"]
  by (simp add: late_node_def init_def accept_def quiet_env_def runtime_limit_reached_def
        limit_as_built_def
        timeout_callback_returns_def timeout_calls_def kill_policy_def should_be_killed_def
        max_runtime_reached_def notify_timeout_def kill_def run_kill_def runtime_def time_time_def
        Let_def)

text \<open>
  A limit of five seconds, a runtime that has reached it, a kill that is attempted. With
  a timeout callback that raises, the callback is called and the exception leaves the
  monitor before the flag is set. With a clock that is set back between the reading that
  decides the kill and the reading after it, the configured callback is not called and
  the flag is not set.
\<close>

theorem timeout_notification_counterexample:
  "max_runtime raising_node = Some 5
   \<and> runtime_limit_reached (quiet_env (\<lambda>_. JOB_QUEUE_RUNNING)) raising_node
   \<and> kill_policy (quiet_env (\<lambda>_. JOB_QUEUE_RUNNING)) raising_node =
       (Raised OtherError,
        raising_node\<lparr>clock_reads := 3, driver_calls := [DriverKill], tried_killing := 1,
                       callback_calls := [TimeoutCallback 7]\<rparr>)
   \<and> \<not> timed_out (snd (kill_policy (quiet_env (\<lambda>_. JOB_QUEUE_RUNNING)) raising_node))
   \<and> max_runtime late_node = Some 5
   \<and> runtime_limit_reached backward_clock late_node
   \<and> callback_timeout late_node \<noteq> None
   \<and> kill_policy backward_clock late_node =
       (Finished,
        late_node\<lparr>clock_reads := 3, driver_calls := [DriverKill], tried_killing := 1\<rparr>)
   \<and> \<not> timed_out (snd (kill_policy backward_clock late_node))
   \<and> callback_calls (snd (kill_policy backward_clock late_node)) = []"
  by (simp add: raising_node_def backward_clock_def late_node_def init_def accept_def
        quiet_env_def runtime_limit_reached_def kill_policy_def should_be_killed_def
        max_runtime_reached_def notify_timeout_def kill_def run_kill_def runtime_def time_time_def
        Let_def)

subsection \<open>A job that is never seen running\<close>

lemma record_start_not_running:
  "current_status \<noteq> JOB_QUEUE_RUNNING \<Longrightarrow> record_start env s current_status = s"
  by (simp add: record_start_def)

lemma stop_fields:
  "start_time (snd (stop s)) = start_time s
   \<and> max_runtime (snd (stop s)) = max_runtime s
   \<and> timed_out (snd (stop s)) = timed_out s
   \<and> callback_calls (snd (stop s)) = callback_calls s
   \<and> tried_killing (snd (stop s)) = tried_killing s
   \<and> driver_calls (snd (stop s)) = driver_calls s
   \<and> (status (snd (stop s)) = status s \<or> status (snd (stop s)) = JOB_QUEUE_FAILED)"
  by (simp add: stop_def set_thread_status_def set_status_def Let_def)

lemma sleep_fields:
  "start_time (sleep env s) = start_time s
   \<and> max_runtime (sleep env s) = max_runtime s
   \<and> timed_out (sleep env s) = timed_out s
   \<and> callback_calls (sleep env s) = callback_calls s
   \<and> tried_killing (sleep env s) = tried_killing s
   \<and> driver_calls (sleep env s) = driver_calls s
   \<and> (status (sleep env s) = status s \<or> status (sleep env s) = JOB_QUEUE_FAILED)"
  using stop_fields [of "s\<lparr>sleeps := Suc (sleeps s)\<rparr>"]
  by (simp add: sleep_def Let_def)

lemma sleep_idle: "idle s \<Longrightarrow> idle (sleep env s)"
  using sleep_fields [of env s] by (auto simp: idle_def positive_limit_def)

lemma sleep_undisturbed:
  "\<not> stop_requested env (sleeps s) \<Longrightarrow> thread_status (sleep env s) = thread_status s"
  by (simp add: sleep_def Let_def)

lemma update_status_fields:
  "start_time (update_status env s) = start_time s
   \<and> max_runtime (update_status env s) = max_runtime s
   \<and> timed_out (update_status env s) = timed_out s
   \<and> callback_calls (update_status env s) = callback_calls s
   \<and> tried_killing (update_status env s) = tried_killing s
   \<and> thread_status (update_status env s) = thread_status s
   \<and> filter (\<lambda>c. c = DriverKill) (driver_calls (update_status env s))
       = filter (\<lambda>c. c = DriverKill) (driver_calls s)"
  by (simp add: update_status_def c_update_status_def)

lemma update_status_idle:
  "\<forall>k st. poll_reply env k st \<noteq> JOB_QUEUE_RUNNING \<Longrightarrow> idle s \<Longrightarrow> idle (update_status env s)"
  by (simp add: idle_def positive_limit_def update_status_def c_update_status_def)

lemma kill_policy_idle:
  "idle s \<Longrightarrow>
   kill_policy env s = (Finished, if thread_status s = STOPPING then kill s else s)"
  by (auto simp: idle_def positive_limit_def kill_policy_def should_be_killed_def
                 max_runtime_reached_def runtime_def kill_def run_kill_def Let_def
           split: option.splits)

lemma should_be_killed_idle:
  "start_time s = None \<Longrightarrow> positive_limit s \<Longrightarrow>
   fst (should_be_killed env s) = (thread_status s = STOPPING)"
  by (auto simp: positive_limit_def should_be_killed_def runtime_def split: option.splits)

lemma kill_idle: "idle s \<Longrightarrow> idle (kill s)"
  by (simp add: idle_def positive_limit_def kill_def run_kill_def Let_def)

lemma loop_body_idle:
  assumes "\<forall>k st. poll_reply env k st \<noteq> JOB_QUEUE_RUNNING" "idle s"
    "current_status \<noteq> JOB_QUEUE_RUNNING"
  shows "loop_body env s current_status = (Finished, quiet_pass env s, status (quiet_pass env s))"
proof -
  have "idle (update_status env (sleep env s))"
    using assms by (simp add: sleep_idle update_status_idle)
  from kill_policy_idle [OF this] show ?thesis
    using assms(3) by (simp add: loop_body_def quiet_pass_def record_start_not_running Let_def)
qed

lemma quiet_pass_idle:
  assumes "\<forall>k st. poll_reply env k st \<noteq> JOB_QUEUE_RUNNING" "idle s"
  shows "idle (quiet_pass env s)"
proof -
  have "idle (update_status env (sleep env s))"
    using assms by (simp add: sleep_idle update_status_idle)
  then show ?thesis by (simp add: quiet_pass_def kill_idle Let_def)
qed

lemma quiet_pass_fields:
  "timed_out (quiet_pass env s) = timed_out s
   \<and> callback_calls (quiet_pass env s) = callback_calls s"
  using sleep_fields [of env s] update_status_fields [of env "sleep env s"]
  by (simp add: quiet_pass_def kill_def run_kill_def Let_def)

lemma quiet_pass_no_stop:
  assumes "\<not> stop_requested env (sleeps s)" "thread_status s \<noteq> STOPPING"
  shows "thread_status (quiet_pass env s) = thread_status s
         \<and> tried_killing (quiet_pass env s) = tried_killing s
         \<and> filter (\<lambda>c. c = DriverKill) (driver_calls (quiet_pass env s))
             = filter (\<lambda>c. c = DriverKill) (driver_calls s)"
  using assms sleep_fields [of env s] update_status_fields [of env "sleep env s"]
        sleep_undisturbed [of env s]
  by (simp add: quiet_pass_def Let_def)

lemma poll_loop_idle:
  assumes never: "\<forall>k st. poll_reply env k st \<noteq> JOB_QUEUE_RUNNING"
  shows "idle s \<Longrightarrow> current_status \<noteq> JOB_QUEUE_RUNNING \<Longrightarrow>
         poll_loop fuel env s current_status = (c, s', st') \<Longrightarrow>
         idle s' \<and> timed_out s' = timed_out s \<and> callback_calls s' = callback_calls s
         \<and> (c = Finished \<or> c = OutOfFuel)"
proof (induction fuel arbitrary: s current_status)
  case 0
  then show ?case by (auto split: if_splits)
next
  case (Suc n)
  show ?case
  proof (cases "is_running s (Some current_status)")
    case False
    then show ?thesis using Suc.prems by simp
  next
    case True
    let ?s1 = "quiet_pass env s"
    have body: "loop_body env s current_status = (Finished, ?s1, status ?s1)"
      using never Suc.prems(1,2) by (simp add: loop_body_idle)
    have i1: "idle ?s1" using never Suc.prems(1) by (rule quiet_pass_idle)
    then have nr: "status ?s1 \<noteq> JOB_QUEUE_RUNNING" by (simp add: idle_def)
    have rest: "poll_loop n env ?s1 (status ?s1) = (c, s', st')"
      using Suc.prems(3) True body by simp
    from Suc.IH [OF i1 nr rest] show ?thesis
      by (simp add: quiet_pass_fields)
  qed
qed

lemma poll_loop_no_kill:
  assumes never: "\<forall>k st. poll_reply env k st \<noteq> JOB_QUEUE_RUNNING"
    and quiet: "\<forall>k. \<not> stop_requested env k"
  shows "idle s \<Longrightarrow> current_status \<noteq> JOB_QUEUE_RUNNING \<Longrightarrow> thread_status s \<noteq> STOPPING \<Longrightarrow>
         poll_loop fuel env s current_status = (c, s', st') \<Longrightarrow>
         thread_status s' = thread_status s \<and> tried_killing s' = tried_killing s
         \<and> filter (\<lambda>c. c = DriverKill) (driver_calls s')
             = filter (\<lambda>c. c = DriverKill) (driver_calls s)"
proof (induction fuel arbitrary: s current_status)
  case 0
  then show ?case by (auto split: if_splits)
next
  case (Suc n)
  show ?case
  proof (cases "is_running s (Some current_status)")
    case False
    then show ?thesis using Suc.prems by simp
  next
    case True
    let ?s1 = "quiet_pass env s"
    have body: "loop_body env s current_status = (Finished, ?s1, status ?s1)"
      using never Suc.prems(1,2) by (simp add: loop_body_idle)
    have i1: "idle ?s1" using never Suc.prems(1) by (rule quiet_pass_idle)
    then have nr: "status ?s1 \<noteq> JOB_QUEUE_RUNNING" by (simp add: idle_def)
    have keep: "thread_status ?s1 = thread_status s \<and> tried_killing ?s1 = tried_killing s
         \<and> filter (\<lambda>c. c = DriverKill) (driver_calls ?s1)
             = filter (\<lambda>c. c = DriverKill) (driver_calls s)"
      using quiet Suc.prems(3) by (simp add: quiet_pass_no_stop)
    then have ns: "thread_status ?s1 \<noteq> STOPPING" using Suc.prems(3) by simp
    have rest: "poll_loop n env ?s1 (status ?s1) = (c, s', st')"
      using Suc.prems(4) True body by simp
    from Suc.IH [OF i1 nr ns rest] keep show ?thesis by simp
  qed
qed


lemma handle_final_status_fields:
  "start_time (snd (handle_final_status max_submit s)) = start_time s
   \<and> timed_out (snd (handle_final_status max_submit s)) = timed_out s
   \<and> tried_killing (snd (handle_final_status max_submit s)) = tried_killing s
   \<and> driver_calls (snd (handle_final_status max_submit s)) = driver_calls s
   \<and> filter is_timeout_call (callback_calls (snd (handle_final_status max_submit s)))
       = filter is_timeout_call (callback_calls s)"
  by (simp add: handle_final_status_def run_exit_callback_def set_thread_status_def
                set_status_def Let_def split: sum.splits)

lemma run_done_callback_fields:
  "start_time (snd (run_done_callback s)) = start_time s
   \<and> timed_out (snd (run_done_callback s)) = timed_out s
   \<and> tried_killing (snd (run_done_callback s)) = tried_killing s
   \<and> driver_calls (snd (run_done_callback s)) = driver_calls s
   \<and> filter is_timeout_call (callback_calls (snd (run_done_callback s)))
       = filter is_timeout_call (callback_calls s)"
  by (simp add: run_done_callback_def set_status_def Let_def split: sum.splits exn.splits)

lemma terminal_handling_fields:
  "start_time (snd (terminal_handling max_submit s current_status)) = start_time s
   \<and> timed_out (snd (terminal_handling max_submit s current_status)) = timed_out s
   \<and> tried_killing (snd (terminal_handling max_submit s current_status)) = tried_killing s
   \<and> driver_calls (snd (terminal_handling max_submit s current_status)) = driver_calls s
   \<and> filter is_timeout_call (callback_calls (snd (terminal_handling max_submit s current_status)))
       = filter is_timeout_call (callback_calls s)"
proof (cases "current_status = JOB_QUEUE_DONE")
  case False
  then show ?thesis
    using handle_final_status_fields [of max_submit s] by (simp add: terminal_handling_def)
next
  case True
  show ?thesis
  proof (cases "run_done_callback s")
    case (Pair r s1)
    then have s1: "s1 = snd (run_done_callback s)" by simp
    show ?thesis
    proof (cases r)
      case (Inl e)
      then show ?thesis
        using True Pair run_done_callback_fields [of s]
        by (simp add: terminal_handling_def)
    next
      case (Inr b)
      then show ?thesis
        using True Pair run_done_callback_fields [of s] handle_final_status_fields [of max_submit s1]
        by (simp add: terminal_handling_def)
    qed
  qed
qed

lemma monitor_entry_fields:
  "start_time (update_status env (submit_step env s)) = start_time s
   \<and> max_runtime (update_status env (submit_step env s)) = max_runtime s
   \<and> timed_out (update_status env (submit_step env s)) = timed_out s
   \<and> callback_calls (update_status env (submit_step env s)) = callback_calls s
   \<and> tried_killing (update_status env (submit_step env s)) = tried_killing s
   \<and> thread_status (update_status env (submit_step env s)) = thread_status s
   \<and> filter (\<lambda>c. c = DriverKill) (driver_calls (update_status env (submit_step env s)))
       = filter (\<lambda>c. c = DriverKill) (driver_calls s)"
  by (simp add: update_status_def c_update_status_def submit_step_def submit_def set_status_def
                Let_def)

lemma monitor_entry_idle:
  assumes "start_time s = None" "positive_limit s"
    "\<forall>k. snd (submit_reply env k) \<noteq> JOB_QUEUE_RUNNING"
    "\<forall>k st. poll_reply env k st \<noteq> JOB_QUEUE_RUNNING"
  shows "idle (update_status env (submit_step env s))"
proof -
  have "idle (submit_step env s)"
    using assms(1-3)
    by (simp add: idle_def positive_limit_def submit_step_def submit_def set_status_def Let_def)
  then show ?thesis using assms(4) by (simp add: update_status_idle)
qed

text \<open>
  C10, as amended. The start time is recorded only when the loop sees the status RUNNING,
  and the runtime is 0 without a start time. So for a monitor entered without a start
  time, with a positive maximum runtime or none, on a backend that never reports RUNNING:
  the kill policy asks for a kill only on STOPPING; and whatever the clock says and
  however long the loop runs, no start time is recorded, the timed-out flag is left as
  it was, the timeout callback is not called, and, when no stop is requested, no kill is
  attempted.
\<close>

theorem no_timeout_without_running:
  assumes fresh: "start_time s = None" and limit: "positive_limit s"
    and submitted: "\<forall>k. snd (submit_reply env k) \<noteq> JOB_QUEUE_RUNNING"
    and never: "\<forall>k st. poll_reply env k st \<noteq> JOB_QUEUE_RUNNING"
  shows "fst (should_be_killed env s) = (thread_status s = STOPPING)
       \<and> start_time (snd (job_monitor fuel env max_submit s)) = None
       \<and> timed_out (snd (job_monitor fuel env max_submit s)) = timed_out s
       \<and> filter is_timeout_call (callback_calls (snd (job_monitor fuel env max_submit s)))
           = filter is_timeout_call (callback_calls s)
       \<and> (thread_status s \<noteq> STOPPING \<and> (\<forall>k. \<not> stop_requested env k) \<longrightarrow>
            tried_killing (snd (job_monitor fuel env max_submit s)) = tried_killing s
            \<and> filter (\<lambda>c. c = DriverKill) (driver_calls (snd (job_monitor fuel env max_submit s)))
                = filter (\<lambda>c. c = DriverKill) (driver_calls s))"
proof -
  let ?s1 = "update_status env (submit_step env s)"
  have i1: "idle ?s1" using assms by (rule monitor_entry_idle)
  then have nr: "status ?s1 \<noteq> JOB_QUEUE_RUNNING" by (simp add: idle_def)
  obtain c s2 st2 where loop: "poll_loop fuel env ?s1 (status ?s1) = (c, s2, st2)"
    by (cases "poll_loop fuel env ?s1 (status ?s1)") auto
  from poll_loop_idle [OF never i1 nr loop]
  have l1: "idle s2" "timed_out s2 = timed_out ?s1" "callback_calls s2 = callback_calls ?s1"
           "c = Finished \<or> c = OutOfFuel" by simp_all
  let ?s3 = "s2\<lparr>clock_reads := Suc (clock_reads s2), end_time := Some (clock env (clock_reads s2))\<rparr>"
  have mon: "job_monitor fuel env max_submit s =
               (if c = Finished then terminal_handling max_submit ?s3 st2 else (c, s2))"
    using loop l1(4) by (auto simp: job_monitor_def Let_def time_time_def)
  have first: "fst (should_be_killed env s) = (thread_status s = STOPPING)"
    using fresh limit by (rule should_be_killed_idle)
  have second: "start_time (snd (job_monitor fuel env max_submit s)) = None
       \<and> timed_out (snd (job_monitor fuel env max_submit s)) = timed_out s
       \<and> filter is_timeout_call (callback_calls (snd (job_monitor fuel env max_submit s)))
           = filter is_timeout_call (callback_calls s)"
    using l1 monitor_entry_fields [of env s] terminal_handling_fields [of max_submit ?s3 st2]
    by (simp add: mon idle_def)
  have third: "tried_killing (snd (job_monitor fuel env max_submit s)) = tried_killing s
            \<and> filter (\<lambda>c. c = DriverKill) (driver_calls (snd (job_monitor fuel env max_submit s)))
                = filter (\<lambda>c. c = DriverKill) (driver_calls s)"
    if a: "thread_status s \<noteq> STOPPING \<and> (\<forall>k. \<not> stop_requested env k)"
  proof -
    have ns: "thread_status ?s1 \<noteq> STOPPING"
      using a monitor_entry_fields [of env s] by simp
    have q: "\<forall>k. \<not> stop_requested env k" using a by simp
    from poll_loop_no_kill [OF never q i1 nr ns loop]
    show ?thesis
      using monitor_entry_fields [of env s] terminal_handling_fields [of max_submit ?s3 st2]
      by (simp add: mon)
  qed
  show ?thesis using first second third by blast
qed

lemmas model_defs =
  init_def accept_def reject_def invalid_def quiet_env_def
  job_monitor_def submit_step_def submit_def update_status_def c_update_status_def
  loop_body_def record_start_def sleep_def stop_def kill_policy_def should_be_killed_def
  max_runtime_reached_def notify_timeout_def kill_def run_kill_def runtime_def time_time_def
  is_running_def terminal_handling_def handle_final_status_def run_done_callback_def
  run_exit_callback_def set_status_def set_thread_status_def wait_for_def run_def Let_def

theorem no_timeout_without_running_witness:
  "start_time patient_node = None
   \<and> positive_limit patient_node
   \<and> max_runtime patient_node = Some 5
   \<and> job_monitor 3 pending_then_exit 2 patient_node =
       (Finished, patient_node
          \<lparr>submit_attempt := 1, status := JOB_QUEUE_EXIT, thread_status := READY,
           driver_calls := [DriverSubmit, DriverPoll, DriverPoll, DriverPoll],
           polls := 3, sleeps := 2, clock_reads := 1, end_time := Some 0\<rparr>)
   \<and> \<not> timed_out (snd (job_monitor 3 pending_then_exit 2 patient_node))
   \<and> tried_killing (snd (job_monitor 3 pending_then_exit 2 patient_node)) = 0
   \<and> callback_calls (snd (job_monitor 3 pending_then_exit 2 patient_node)) = []"
  using no_timeout_without_running [of patient_node pending_then_exit 3 2]
  by (simp add: patient_node_def pending_then_exit_def positive_limit_def model_defs
                eval_nat_numeral)

text \<open>
  With a maximum runtime of zero a job that is only ever PENDING is killed by the runtime
  condition in the first pass; with a negative one the flag is set and the timeout
  callback is called as well.
\<close>

theorem zero_limit_never_running_counterexample:
  "start_time zero_limit_node = None
   \<and> thread_status zero_limit_node = RUNNING
   \<and> max_runtime zero_limit_node = Some 0
   \<and> job_monitor 1 (quiet_env (\<lambda>_. JOB_QUEUE_PENDING)) 2 zero_limit_node =
       (OutOfFuel, zero_limit_node
          \<lparr>submit_attempt := 1, status := JOB_QUEUE_PENDING,
           driver_calls := [DriverSubmit, DriverPoll, DriverPoll, DriverKill],
           polls := 2, sleeps := 1, tried_killing := 1\<rparr>)
   \<and> job_monitor 1 (quiet_env (\<lambda>_. JOB_QUEUE_PENDING)) 2
         (zero_limit_node\<lparr>max_runtime := Some (- 1)\<rparr>) =
       (OutOfFuel, zero_limit_node
          \<lparr>max_runtime := Some (- 1), submit_attempt := 1, status := JOB_QUEUE_PENDING,
           driver_calls := [DriverSubmit, DriverPoll, DriverPoll, DriverKill],
           polls := 2, sleeps := 1, tried_killing := 1,
           callback_calls := [TimeoutCallback 7], timed_out := True\<rparr>)"
  by (simp add: zero_limit_node_def model_defs)

subsection \<open>run and the monitor thread\<close>

lemma same_threads_refl: "same_threads s s"
  by (simp add: same_threads_def)

lemma same_threads_trans: "same_threads s s1 \<Longrightarrow> same_threads s1 s2 \<Longrightarrow> same_threads s s2"
  by (simp add: same_threads_def)

lemma record_start_threads: "same_threads s (record_start env s current_status)"
  by (simp add: same_threads_def record_start_def time_time_def)

lemma sleep_threads: "same_threads s (sleep env s)"
  by (simp add: same_threads_def sleep_def stop_def set_status_def set_thread_status_def Let_def)

lemma update_status_threads: "same_threads s (update_status env s)"
  by (simp add: same_threads_def update_status_def c_update_status_def)

lemma should_be_killed_threads: "same_threads s (snd (should_be_killed env s))"
  using should_be_killed_frame [of env s] by (auto simp: same_threads_def)

lemma max_runtime_reached_threads: "same_threads s (snd (max_runtime_reached env s))"
  using max_runtime_reached_frame [of env s] by (auto simp: same_threads_def)

lemma kill_threads: "same_threads s (kill s)"
  by (simp add: same_threads_def kill_def run_kill_def Let_def)

lemma notify_timeout_threads: "same_threads s (snd (notify_timeout s))"
  by (simp add: same_threads_def notify_timeout_def Let_def split: option.splits sum.splits)

lemma kill_policy_threads: "same_threads s (snd (kill_policy env s))"
proof (cases "fst (should_be_killed env s)")
  case False
  then show ?thesis by (simp add: kill_policy_not_killed should_be_killed_threads)
next
  case True
  let ?s1 = "snd (should_be_killed env s)"
  let ?s3 = "snd (max_runtime_reached env (kill ?s1))"
  have "same_threads s ?s3"
    using should_be_killed_threads [of s env] kill_threads [of ?s1]
          max_runtime_reached_threads [of "kill ?s1" env]
    by (simp add: same_threads_def)
  then show ?thesis
    using True notify_timeout_threads [of ?s3]
    by (simp add: kill_policy_killed same_threads_def)
qed

lemma loop_body_threads: "same_threads s (fst (snd (loop_body env s current_status)))"
proof -
  let ?s3 = "update_status env (sleep env (record_start env s current_status))"
  have a: "same_threads s ?s3"
    using record_start_threads [of s env current_status]
          sleep_threads [of "record_start env s current_status" env]
          update_status_threads [of "sleep env (record_start env s current_status)" env]
    by (simp add: same_threads_def)
  have b: "fst (snd (loop_body env s current_status)) = snd (kill_policy env ?s3)"
    by (simp add: loop_body_def Let_def split: prod.splits completion.splits)
  show ?thesis using a kill_policy_threads [of ?s3 env] by (simp add: b same_threads_def)
qed

lemma poll_loop_threads:
  "same_threads s (fst (snd (poll_loop fuel env s current_status)))"
proof (induction fuel arbitrary: s current_status)
  case 0
  then show ?case by (simp add: same_threads_refl)
next
  case (Suc n)
  show ?case
  proof (cases "is_running s (Some current_status)")
    case False
    then show ?thesis by (simp add: same_threads_refl)
  next
    case True
    obtain c s1 st1 where body: "loop_body env s current_status = (c, s1, st1)"
      by (cases "loop_body env s current_status") auto
    have one: "same_threads s s1"
      using loop_body_threads [of s env current_status] body by simp
    show ?thesis
    proof (cases "c = Finished")
      case False
      then show ?thesis using True body one by (cases c) simp_all
    next
      case f: True
      then have "poll_loop (Suc n) env s current_status = poll_loop n env s1 st1"
        using True body by simp
      then show ?thesis using one Suc.IH [of s1 st1] by (simp add: same_threads_def)
    qed
  qed
qed

lemma terminal_handling_threads:
  "same_threads s (snd (terminal_handling max_submit s current_status))"
  by (simp add: same_threads_def terminal_handling_def handle_final_status_def
        run_done_callback_def run_exit_callback_def set_status_def set_thread_status_def Let_def
      split: sum.splits exn.splits prod.splits)

lemma job_monitor_threads: "same_threads s (snd (job_monitor fuel env max_submit s))"
proof -
  let ?s1 = "update_status env (submit_step env s)"
  have a: "same_threads s ?s1"
    by (simp add: same_threads_def update_status_def c_update_status_def submit_step_def
                  submit_def set_status_def Let_def)
  obtain c s2 st2 where loop: "poll_loop fuel env ?s1 (status ?s1) = (c, s2, st2)"
    by (cases "poll_loop fuel env ?s1 (status ?s1)") auto
  have b: "same_threads ?s1 s2"
    using poll_loop_threads [of ?s1 fuel env "status ?s1"] loop by simp
  let ?s3 = "s2\<lparr>clock_reads := Suc (clock_reads s2), end_time := Some (clock env (clock_reads s2))\<rparr>"
  have d: "same_threads s ?s3" using a b by (simp add: same_threads_def)
  show ?thesis
  proof (cases "c = Finished")
    case True
    then have "job_monitor fuel env max_submit s = terminal_handling max_submit ?s3 st2"
      using loop by (simp add: job_monitor_def Let_def time_time_def)
    then show ?thesis
      using d terminal_handling_threads [of ?s3 max_submit st2] by (simp add: same_threads_def)
  next
    case False
    then have "job_monitor fuel env max_submit s = (c, s2)"
      using loop by (cases c) (simp_all add: job_monitor_def Let_def)
    then show ?thesis using a b by (simp add: same_threads_def)
  qed
qed


lemma monitor_alive_thread:
  assumes "monitor_alive s"
  shows "\<exists>m. thread s = Some (Thread m True)"
proof (cases "thread s")
  case None
  then show ?thesis using assms by (simp add: monitor_alive_def)
next
  case (Some t)
  then show ?thesis using assms by (cases t) (simp add: monitor_alive_def)
qed

lemma wait_for_not_alive: "\<not> monitor_alive s \<Longrightarrow> wait_for fuel env s = (Finished, s)"
  by (auto simp: wait_for_def monitor_alive_def split: option.splits Thread.splits bool.splits)

lemma wait_for_alive:
  assumes "thread s = Some (Thread m True)"
  shows "wait_for fuel env s =
           (if fst (job_monitor fuel env m s) = OutOfFuel then job_monitor fuel env m s
            else (Finished, (snd (job_monitor fuel env m s))
                    \<lparr>thread := Some (Thread m False),
                     live_monitors := live_monitors (snd (job_monitor fuel env m s)) - 1\<rparr>))"
  using assms
  by (cases "job_monitor fuel env m s"; cases "fst (job_monitor fuel env m s)")
     (auto simp: wait_for_def)

lemma wait_for_joined:
  assumes "fst (wait_for fuel env s) = Finished"
  shows "\<not> monitor_alive (snd (wait_for fuel env s))
         \<and> (one_monitor s \<longrightarrow> live_monitors (snd (wait_for fuel env s)) = 0)"
proof (cases "monitor_alive s")
  case False
  then show ?thesis by (simp add: wait_for_not_alive one_monitor_def)
next
  case True
  then obtain m where m: "thread s = Some (Thread m True)"
    using monitor_alive_thread by blast
  have "live_monitors (snd (job_monitor fuel env m s)) = live_monitors s"
    using job_monitor_threads [of s fuel env m] by (simp add: same_threads_def)
  then show ?thesis
    using assms True by (auto simp: wait_for_alive [OF m] monitor_alive_def one_monitor_def
                              split: if_splits)
qed

lemma wait_for_ends: "fst (wait_for fuel env s) = Finished \<or> fst (wait_for fuel env s) = OutOfFuel"
proof (cases "monitor_alive s")
  case False
  then show ?thesis by (simp add: wait_for_not_alive)
next
  case True
  then obtain m where m: "thread s = Some (Thread m True)"
    using monitor_alive_thread by blast
  show ?thesis by (simp add: wait_for_alive [OF m])
qed

lemma run_after_wait:
  "run fuel env max_submit s =
     (if fst (wait_for fuel env s) = Finished
      then (if thread_status (snd (wait_for fuel env s)) = STOPPING
            then (Finished, (snd (wait_for fuel env s))\<lparr>thread_status := DONE\<rparr>)
            else (Finished, (snd (wait_for fuel env s))
                    \<lparr>thread_status := RUNNING, start_time := None,
                     thread := Some (Thread max_submit True),
                     live_monitors := Suc (live_monitors (snd (wait_for fuel env s)))\<rparr>))
      else wait_for fuel env s)"
  by (cases "wait_for fuel env s"; cases "fst (wait_for fuel env s)")
     (auto simp: run_def set_thread_status_def)

text \<open>
  C7, as amended. \<open>run()\<close> first waits for the node's previous monitor thread: while
  that wait has not returned, \<open>run()\<close> has done nothing else, and when it has returned no
  monitor is alive, so that starting the new one leaves at most one live monitor. If the
  worker status is STOPPING once the wait is over, in particular if it is STOPPING at
  entry and no monitor is alive, \<open>run()\<close> sets the worker status to DONE and returns
  without submitting and without starting a monitor thread; otherwise it sets RUNNING,
  clears the start time and starts the monitor.
\<close>

theorem run_waits_first:
  "(fst (wait_for fuel env s) \<noteq> Finished \<longrightarrow> run fuel env max_submit s = wait_for fuel env s)
   \<and> (fst (wait_for fuel env s) = Finished \<longrightarrow>
        \<not> monitor_alive (snd (wait_for fuel env s))
        \<and> (thread_status (snd (wait_for fuel env s)) = STOPPING \<longrightarrow>
             run fuel env max_submit s =
               (Finished, (snd (wait_for fuel env s))\<lparr>thread_status := DONE\<rparr>))
        \<and> (thread_status (snd (wait_for fuel env s)) \<noteq> STOPPING \<longrightarrow>
             run fuel env max_submit s =
               (Finished, (snd (wait_for fuel env s))
                  \<lparr>thread_status := RUNNING, start_time := None,
                   thread := Some (Thread max_submit True),
                   live_monitors := Suc (live_monitors (snd (wait_for fuel env s)))\<rparr>)))
   \<and> (one_monitor s \<and> fst (run fuel env max_submit s) = Finished \<longrightarrow>
        one_monitor (snd (run fuel env max_submit s))
        \<and> live_monitors (snd (run fuel env max_submit s)) \<le> 1)
   \<and> (\<not> monitor_alive s \<and> thread_status s = STOPPING \<longrightarrow>
        run fuel env max_submit s = (Finished, s\<lparr>thread_status := DONE\<rparr>))"
proof (intro conjI impI)
  show "run fuel env max_submit s = wait_for fuel env s"
    if "fst (wait_for fuel env s) \<noteq> Finished"
    using that by (simp add: run_after_wait)
  show "\<not> monitor_alive (snd (wait_for fuel env s))"
    if "fst (wait_for fuel env s) = Finished"
    using wait_for_joined [OF that] by simp
  show "run fuel env max_submit s =
               (Finished, (snd (wait_for fuel env s))\<lparr>thread_status := DONE\<rparr>)"
    if "fst (wait_for fuel env s) = Finished"
       "thread_status (snd (wait_for fuel env s)) = STOPPING"
    using that by (simp add: run_after_wait)
  show "run fuel env max_submit s =
               (Finished, (snd (wait_for fuel env s))
                  \<lparr>thread_status := RUNNING, start_time := None,
                   thread := Some (Thread max_submit True),
                   live_monitors := Suc (live_monitors (snd (wait_for fuel env s)))\<rparr>)"
    if "fst (wait_for fuel env s) = Finished"
       "thread_status (snd (wait_for fuel env s)) \<noteq> STOPPING"
    using that by (simp add: run_after_wait)
  show "run fuel env max_submit s = (Finished, s\<lparr>thread_status := DONE\<rparr>)"
    if "\<not> monitor_alive s \<and> thread_status s = STOPPING"
    using that by (simp add: run_after_wait wait_for_not_alive)
next
  assume a: "one_monitor s \<and> fst (run fuel env max_submit s) = Finished"
  then have w: "fst (wait_for fuel env s) = Finished"
    by (simp add: run_after_wait split: if_splits)
  from wait_for_joined [OF w] a
  have j: "\<not> monitor_alive (snd (wait_for fuel env s))"
          "live_monitors (snd (wait_for fuel env s)) = 0" by simp_all
  then have both: "one_monitor (snd (run fuel env max_submit s))"
    using w by (simp add: run_after_wait one_monitor_def monitor_alive_def)
  then show "one_monitor (snd (run fuel env max_submit s))" .
  from both show "live_monitors (snd (run fuel env max_submit s)) \<le> 1"
    by (simp add: one_monitor_def split: if_splits)
qed

theorem run_waits_first_witness:
  "\<not> monitor_alive ((init accept accept 7 None None)\<lparr>thread_status := STOPPING\<rparr>)
   \<and> run 0 (quiet_env (\<lambda>_. JOB_QUEUE_IS_KILLED)) 2
         ((init accept accept 7 None None)\<lparr>thread_status := STOPPING\<rparr>) =
       (Finished, (init accept accept 7 None None)\<lparr>thread_status := DONE\<rparr>)
   \<and> one_monitor (init accept accept 7 None None)
   \<and> run 0 (quiet_env (\<lambda>_. JOB_QUEUE_IS_KILLED)) 2 (init accept accept 7 None None) =
       (Finished, (init accept accept 7 None None)
          \<lparr>thread_status := RUNNING, thread := Some (Thread 2 True), live_monitors := 1\<rparr>)
   \<and> one_monitor (snd (run 0 (quiet_env (\<lambda>_. JOB_QUEUE_IS_KILLED)) 2
                          (init accept accept 7 None None)))"
  using run_waits_first [of 0 "quiet_env (\<lambda>_. JOB_QUEUE_IS_KILLED)"
          "(init accept accept 7 None None)\<lparr>thread_status := STOPPING\<rparr>" 2]
        run_waits_first [of 0 "quiet_env (\<lambda>_. JOB_QUEUE_IS_KILLED)"
          "init accept accept 7 None None" 2]
  by (simp add: monitor_alive_def one_monitor_def model_defs)

text \<open>
  A node whose worker status is STOPPING at entry while its monitor is alive: the wait
  lets that monitor finish, which leaves the worker status DONE, so \<open>run()\<close> goes on to
  RUNNING and starts a new monitor, which submits the job a second time.
\<close>

theorem stopping_with_live_monitor_counterexample:
  "thread_status stopping_node = STOPPING
   \<and> monitor_alive stopping_node
   \<and> submit_attempt stopping_node = 0
   \<and> run 0 (quiet_env (\<lambda>_. JOB_QUEUE_IS_KILLED)) 2 stopping_node =
       (Finished, (init accept accept 7 None None)
          \<lparr>thread_status := RUNNING, thread := Some (Thread 2 True), live_monitors := 1,
           status := JOB_QUEUE_IS_KILLED, submit_attempt := 1,
           driver_calls := [DriverSubmit, DriverPoll], polls := 1, clock_reads := 1,
           end_time := Some 0\<rparr>)
   \<and> submit_attempt
         (snd (wait_for 0 (quiet_env (\<lambda>_. JOB_QUEUE_IS_KILLED))
                 (snd (run 0 (quiet_env (\<lambda>_. JOB_QUEUE_IS_KILLED)) 2 stopping_node)))) = 2"
  by (simp add: stopping_node_def monitor_alive_def model_defs)

subsection \<open>The runtime on a retry\<close>

lemma retried_node_eq:
  "retried_node =
     limited_node
       \<lparr>thread_status := RUNNING, thread := Some (Thread 2 True), live_monitors := 1,
        status := JOB_QUEUE_EXIT, submit_attempt := 1, driver_calls := [DriverSubmit, DriverPoll],
        polls := 1, clock_reads := 1, end_time := Some 0, start_time := None\<rparr>"
  by (simp add: retried_node_def limited_node_def exit_then_running_def model_defs)

text \<open>
  C9. \<open>run()\<close> clears the start time before it starts the monitor, but not the end
  time. On the retried node the start time is unset and the end time of the first
  attempt is still there; once the new attempt is seen RUNNING (at clock 10), the runtime
  is that old end time minus the new start time, -10 whatever the clock says, so the
  limit of five seconds is never reached: after three passes of the loop no kill was
  attempted and the flag is unset. On a first attempt the same limit is reached in the
  first pass.
\<close>

theorem retry_runtime_is_stale:
  "start_time retried_node = None
   \<and> end_time retried_node = Some 0
   \<and> max_runtime retried_node = Some 5
   \<and> job_monitor 3 exit_then_running 2 retried_node =
       (OutOfFuel,
        retried_node
          \<lparr>status := JOB_QUEUE_RUNNING, submit_attempt := 2,
           driver_calls := [DriverSubmit, DriverPoll, DriverSubmit, DriverPoll,
                            DriverPoll, DriverPoll, DriverPoll],
           polls := 5, sleeps := 3, clock_reads := 2, start_time := Some 10\<rparr>)
   \<and> (\<forall>env. fst (runtime env (snd (job_monitor 3 exit_then_running 2 retried_node))) = - 10)
   \<and> tried_killing (snd (job_monitor 3 exit_then_running 2 retried_node)) = 0
   \<and> \<not> timed_out (snd (job_monitor 3 exit_then_running 2 retried_node))
   \<and> tried_killing
         (snd (job_monitor 1 (quiet_env (\<lambda>_. JOB_QUEUE_RUNNING)) 2
                 (snd (run 0 exit_then_running 2 limited_node)))) = 1
   \<and> timed_out
         (snd (job_monitor 1 (quiet_env (\<lambda>_. JOB_QUEUE_RUNNING)) 2
                 (snd (run 0 exit_then_running 2 limited_node))))"
  by (simp add: retried_node_eq limited_node_def exit_then_running_def model_defs eval_nat_numeral)

subsection \<open>The retry scenario\<close>

text \<open>
  With \<open>max_submit = 2\<close> and a backend that always reports EXIT the job is submitted
  twice, the node ends FAILED with worker status DONE, and the exit callback is called
  exactly once.
\<close>

lemma always_exit_scenario:
  "always_exit_run =
     (init accept accept 7 None None)
       \<lparr>thread_status := DONE, thread := Some (Thread 2 False),
        status := JOB_QUEUE_FAILED, submit_attempt := 2,
        driver_calls := [DriverSubmit, DriverPoll, DriverSubmit, DriverPoll],
        callback_calls := [ExitCallback 7],
        polls := 2, clock_reads := 2, end_time := Some 10\<rparr>"
  by (simp add: always_exit_run_def model_defs)

end
